theory Spec2Isabelle
  imports Main "HOL-Library.AList"
begin

section \<open>Values read from the two JSON files\<close>

text \<open>
  \<^verbatim>\<open>scripts/update_car_prices.py\<close> reads the catalog and the statistics table with
  \<^verbatim>\<open>json.load\<close> and works on whatever values come out of it. The values are modelled as a
  datatype. An object is an association list in the key order of the Python dict (the order
  matters: \<^verbatim>\<open>model_data.keys()\<close> is iterated); a dict built by \<^verbatim>\<open>json.load\<close> has no
  duplicate keys. Python's \<^verbatim>\<open>None\<close> is \<open>JNull\<close>.

  Numbers are Python integers. JSON floats are not part of the model, and text is ASCII:
  a character outside ASCII is neither a letter, nor white space, nor a digit here.
\<close>

datatype json =
    JNull
  | JBool bool
  | JInt int
  | JStr string
  | JArr "json list"
  | JObj "(string \<times> json) list"

text \<open>The exceptions the script can raise; \<open>KeyError\<close> carries the key, as in Python.\<close>

datatype error =
    KeyError string
  | TypeError
  | AttributeError
  | ValueError

definition and_then :: "error + 'a \<Rightarrow> ('a \<Rightarrow> error + 'b) \<Rightarrow> error + 'b" where
  "and_then r f = (case r of Inl e \<Rightarrow> Inl e | Inr v \<Rightarrow> f v)"

section \<open>The Python built-ins the script calls\<close>

subsection \<open>Strings\<close>

definition py_isspace :: "char \<Rightarrow> bool" where
  "py_isspace c = (let n = (of_char c :: nat) in (9 \<le> n \<and> n \<le> 13) \<or> (28 \<le> n \<and> n \<le> 32))"

definition py_isdigit_char :: "char \<Rightarrow> bool" where
  "py_isdigit_char c = (let n = (of_char c :: nat) in 48 \<le> n \<and> n \<le> 57)"

definition py_lower_char :: "char \<Rightarrow> char" where
  "py_lower_char c =
     (let n = (of_char c :: nat) in if 65 \<le> n \<and> n \<le> 90 then char_of (n + 32) else c)"

text \<open>\<^verbatim>\<open>s.lower()\<close>\<close>
definition py_lower :: "string \<Rightarrow> string" where
  "py_lower s = map py_lower_char s"

text \<open>\<^verbatim>\<open>s.strip()\<close>\<close>
definition py_strip :: "string \<Rightarrow> string" where
  "py_strip s = rev (dropWhile py_isspace (rev (dropWhile py_isspace s)))"

text \<open>\<^verbatim>\<open>s.isdigit()\<close>: at least one character, and all of them digits.\<close>
definition py_isdigit :: "string \<Rightarrow> bool" where
  "py_isdigit s = (s \<noteq> [] \<and> list_all py_isdigit_char s)"

text \<open>\<^verbatim>\<open>a in b\<close> for two strings: \<open>a\<close> occurs in \<open>b\<close> as a contiguous run.\<close>
fun py_substring :: "string \<Rightarrow> string \<Rightarrow> bool" where
  "py_substring xs [] = (xs = [])"
| "py_substring xs (y # ys) = (take (length xs) (y # ys) = xs \<or> py_substring xs ys)"

subsection \<open>\<^verbatim>\<open>int(...)\<close> and \<^verbatim>\<open>str(...)\<close>\<close>

definition digit_val :: "char \<Rightarrow> int" where
  "digit_val c = int (of_char c) - 48"

text \<open>
  The digits of an integer literal, read left to right. Python allows one underscore
  between two digits; \<open>prev\<close> says that the character just read was a digit.
\<close>
fun py_int_digits :: "string \<Rightarrow> int \<Rightarrow> bool \<Rightarrow> int option" where
  "py_int_digits [] acc prev = (if prev then Some acc else None)"
| "py_int_digits (c # cs) acc prev =
     (if py_isdigit_char c then py_int_digits cs (acc * 10 + digit_val c) True
      else if c = CHR ''_'' \<and> prev then py_int_digits cs acc False
      else None)"

text \<open>\<^verbatim>\<open>int(s)\<close> for a string: white space around, an optional sign, the digits.\<close>
definition py_int_str :: "string \<Rightarrow> int option" where
  "py_int_str s =
     (case py_strip s of
        [] \<Rightarrow> None
      | c # cs \<Rightarrow>
          if c = CHR ''-'' then map_option uminus (py_int_digits cs 0 False)
          else if c = CHR ''+'' then py_int_digits cs 0 False
          else py_int_digits (c # cs) 0 False)"

text \<open>\<^verbatim>\<open>int(v)\<close> for a value of the catalog.\<close>
definition py_int :: "json \<Rightarrow> error + int" where
  "py_int v =
     (case v of
        JInt n \<Rightarrow> Inr n
      | JBool b \<Rightarrow> Inr (if b then 1 else 0)
      | JStr s \<Rightarrow> (case py_int_str s of None \<Rightarrow> Inl ValueError | Some n \<Rightarrow> Inr n)
      | _ \<Rightarrow> Inl TypeError)"

fun str_of_nat :: "nat \<Rightarrow> string" where
  "str_of_nat n =
     (if n < 10 then [char_of (48 + n)]
      else str_of_nat (n div 10) @ [char_of (48 + n mod 10)])"

text \<open>\<^verbatim>\<open>str(i)\<close> for an integer.\<close>
definition py_str :: "int \<Rightarrow> string" where
  "py_str i = (if i < 0 then CHR ''-'' # str_of_nat (nat (- i)) else str_of_nat (nat i))"

subsection \<open>Containers\<close>

text \<open>
  \<^verbatim>\<open>k in c\<close> for a string \<open>k\<close>: a key of a dict, an element of a list, a substring of a
  string; anything else is not iterable.
\<close>
definition py_contains :: "json \<Rightarrow> string \<Rightarrow> error + bool" where
  "py_contains c k =
     (case c of
        JObj kvs \<Rightarrow> Inr (k \<in> set (map fst kvs))
      | JArr xs \<Rightarrow> Inr (JStr k \<in> set xs)
      | JStr s \<Rightarrow> Inr (py_substring k s)
      | _ \<Rightarrow> Inl TypeError)"

text \<open>
  \<^verbatim>\<open>c[k]\<close> for a string \<open>k\<close>: the value of a dict, \<^verbatim>\<open>KeyError\<close> when the key is absent;
  lists and strings take integer indices only, the other values have no subscript.
\<close>
definition py_getitem :: "json \<Rightarrow> string \<Rightarrow> error + json" where
  "py_getitem c k =
     (case c of
        JObj kvs \<Rightarrow> (case map_of kvs k of None \<Rightarrow> Inl (KeyError k) | Some v \<Rightarrow> Inr v)
      | _ \<Rightarrow> Inl TypeError)"

text \<open>\<^verbatim>\<open>if v:\<close>\<close>
definition truthy :: "json \<Rightarrow> bool" where
  "truthy v =
     (case v of
        JNull \<Rightarrow> False
      | JBool b \<Rightarrow> b
      | JInt n \<Rightarrow> n \<noteq> 0
      | JStr s \<Rightarrow> s \<noteq> []
      | JArr xs \<Rightarrow> xs \<noteq> []
      | JObj kvs \<Rightarrow> kvs \<noteq> [])"

text \<open>
  \<^verbatim>\<open>min(y :: ys, key=f)\<close>: the first element whose key is minimal; a later element
  replaces the best one only when its key is strictly smaller.
\<close>
fun py_min_key :: "(int \<Rightarrow> int) \<Rightarrow> int \<Rightarrow> int list \<Rightarrow> int" where
  "py_min_key f best [] = best"
| "py_min_key f best (x # xs) =
     (if f x < f best then py_min_key f x xs else py_min_key f best xs)"

subsection \<open>Numbers\<close>

text \<open>The integer value of a number; \<^verbatim>\<open>True\<close> and \<^verbatim>\<open>False\<close> are 1 and 0 in Python.\<close>
definition num_of :: "json \<Rightarrow> int option" where
  "num_of v =
     (case v of JInt n \<Rightarrow> Some n | JBool b \<Rightarrow> Some (if b then 1 else 0) | _ \<Rightarrow> None)"

text \<open>
  \<^verbatim>\<open>round(n / 100.0)\<close> for an integer \<open>n\<close>. Python rounds a float half to even. For
  \<open>\<bar>n\<bar> < 2 ^ 53\<close> the double \<^verbatim>\<open>n / 100.0\<close> lies on the same side of every half-integer as
  the exact quotient (and is the half-integer itself exactly when \<open>n mod 100 = 50\<close>), so the
  result is the exact quotient rounded half to even.
\<close>
definition py_round_div100 :: "int \<Rightarrow> int" where
  "py_round_div100 n =
     (let q = n div 100; r = n mod 100
      in if r < 50 then q else if 50 < r then q + 1 else if even q then q else q + 1)"

text \<open>\<^verbatim>\<open>new_price != v\<close> for the integer \<open>new_price\<close>.\<close>
definition py_ne_int :: "int \<Rightarrow> json \<Rightarrow> bool" where
  "py_ne_int n v = (num_of v \<noteq> Some n)"

text \<open>
  \<^verbatim>\<open>a > b\<close>. Where the script evaluates it the left operand is a number (see
  \<open>sanity_check\<close>); a number compares with a number only.
\<close>
definition py_gt :: "json \<Rightarrow> json \<Rightarrow> error + bool" where
  "py_gt a b =
     (case (num_of a, num_of b) of
        (Some x, Some y) \<Rightarrow> Inr (y < x)
      | _ \<Rightarrow> Inl TypeError)"

section \<open>The script\<close>

text \<open>\<^verbatim>\<open>normalize_key(key)\<close>: \<^verbatim>\<open>key.lower().strip()\<close>; only a string has \<^verbatim>\<open>lower\<close>.\<close>
definition normalize_key :: "json \<Rightarrow> error + string" where
  "normalize_key key =
     (case key of JStr s \<Rightarrow> Inr (py_strip (py_lower s)) | _ \<Rightarrow> Inl AttributeError)"

definition CURRENT_YEAR :: int where
  "CURRENT_YEAR = 2026"

definition DATA_YEAR :: int where
  "DATA_YEAR = 2022"

text \<open>\<^verbatim>\<open>target_lookup_year\<close> (lines 31 and 34).\<close>
definition target_lookup_year :: "int \<Rightarrow> int" where
  "target_lookup_year car_year_int = DATA_YEAR - (CURRENT_YEAR - car_year_int)"

text \<open>
  \<^verbatim>\<open>[int(y) for y in model_data.keys() if y.isdigit()]\<close> (line 49). On a string of ASCII
  digits \<^verbatim>\<open>int\<close> cannot raise; \<open>py_int_str_digits\<close> below says that it returns the value
  computed here.
\<close>
definition avail_years :: "(string \<times> json) list \<Rightarrow> int list" where
  "avail_years kvs =
     map (\<lambda>y. foldl (\<lambda>acc c. acc * 10 + digit_val c) 0 y) (filter py_isdigit (map fst kvs))"

text \<open>Lines 45 to 53: the exact year, or else the closest available one.\<close>
definition year_lookup :: "json \<Rightarrow> int \<Rightarrow> error + json" where
  "year_lookup model_data target =
     and_then (py_contains model_data (py_str target)) (\<lambda>exact.
       if exact then py_getitem model_data (py_str target)
       else (case model_data of
               JObj kvs \<Rightarrow>
                 (case avail_years kvs of
                    [] \<Rightarrow> Inr JNull
                  | y # ys \<Rightarrow>
                      py_getitem model_data
                        (py_str (py_min_key (\<lambda>x. \<bar>x - target\<bar>) y ys)))
             | _ \<Rightarrow> Inl AttributeError))"

text \<open>
  Line 41: \<^verbatim>\<open>make in stats and model in stats[make] and fuel in stats[make][model]\<close>,
  evaluated left to right and stopping at the first false operand.
\<close>
definition path_exists :: "json \<Rightarrow> string \<Rightarrow> string \<Rightarrow> string \<Rightarrow> error + bool" where
  "path_exists stats make model fuel =
     and_then (py_contains stats make) (\<lambda>b1.
       if \<not> b1 then Inr False
       else and_then (py_getitem stats make) (\<lambda>s1.
         and_then (py_contains s1 model) (\<lambda>b2.
           if \<not> b2 then Inr False
           else and_then (py_getitem s1 model) (\<lambda>s2. py_contains s2 fuel))))"

text \<open>Lines 38 to 53: \<^verbatim>\<open>found_data\<close>, which stays \<^verbatim>\<open>None\<close> when nothing is found.\<close>
definition find_data :: "json \<Rightarrow> string \<Rightarrow> string \<Rightarrow> string \<Rightarrow> int \<Rightarrow> error + json" where
  "find_data stats make model fuel target =
     and_then (path_exists stats make model fuel) (\<lambda>ex.
       if ex then
         and_then (py_getitem stats make) (\<lambda>s1.
           and_then (py_getitem s1 model) (\<lambda>s2.
             and_then (py_getitem s2 fuel) (\<lambda>model_data. year_lookup model_data target)))
       else Inr JNull)"

text \<open>\<^verbatim>\<open>int(round(avg_price / 100.0)) * 100\<close> (line 59); only a number can be divided.\<close>
definition new_price :: "json \<Rightarrow> error + int" where
  "new_price avg_price =
     (case num_of avg_price of None \<Rightarrow> Inl TypeError | Some n \<Rightarrow> Inr (py_round_div100 n * 100))"

text \<open>
  Lines 68 and 69: the comparison is evaluated and its result dropped, so all that is left
  of it is the exception it can raise. The left operand is the price just written, or the
  old one when it compared equal to the new price: a number in both cases.
\<close>
definition sanity_check :: "json \<Rightarrow> error + unit" where
  "sanity_check car =
     and_then (py_getitem car ''basicPrice'') (\<lambda>bp.
       and_then (py_getitem car ''originalListPrice'') (\<lambda>olp.
         and_then (py_gt bp olp) (\<lambda>_. Inr ())))"

text \<open>\<^verbatim>\<open>car['basicPrice'] = new_price\<close> (line 64), on a dict that has the key.\<close>
definition set_basic_price :: "json \<Rightarrow> int \<Rightarrow> json" where
  "set_basic_price car np =
     (case car of JObj kvs \<Rightarrow> JObj (AList.update ''basicPrice'' (JInt np) kvs) | _ \<Rightarrow> car)"

text \<open>
  Lines 55 to 72. The result is the car and the two counters after the branch.
\<close>
definition apply_found :: "json \<Rightarrow> json \<Rightarrow> nat \<Rightarrow> nat \<Rightarrow> error + (json \<times> nat \<times> nat)" where
  "apply_found car found_data updated_count missing_count =
     (if truthy found_data then
        and_then (py_getitem found_data ''avgPrice'') (\<lambda>avg_price.
          and_then (new_price avg_price) (\<lambda>np.
            and_then (py_getitem car ''basicPrice'') (\<lambda>bp.
              if py_ne_int np bp then
                and_then (sanity_check (set_basic_price car np)) (\<lambda>_.
                  Inr (set_basic_price car np, updated_count + 1, missing_count))
              else
                and_then (sanity_check car) (\<lambda>_.
                  Inr (car, updated_count, missing_count)))))
      else Inr (car, updated_count, missing_count + 1))"

text \<open>The body of the loop (lines 21 to 72) for one car.\<close>
definition loop_body :: "json \<Rightarrow> json \<Rightarrow> nat \<Rightarrow> nat \<Rightarrow> error + (json \<times> nat \<times> nat)" where
  "loop_body stats car updated_count missing_count =
     and_then (py_getitem car ''make'') (\<lambda>v1. and_then (normalize_key v1) (\<lambda>make.
     and_then (py_getitem car ''model'') (\<lambda>v2. and_then (normalize_key v2) (\<lambda>model.
     and_then (py_getitem car ''fuelType'') (\<lambda>v3. and_then (normalize_key v3) (\<lambda>fuel.
     and_then (py_getitem car ''yearOfManufacture'') (\<lambda>v4. and_then (py_int v4) (\<lambda>car_year_int.
     and_then (find_data stats make model fuel (target_lookup_year car_year_int)) (\<lambda>found_data.
       apply_found car found_data updated_count missing_count)))))))))"

text \<open>\<^verbatim>\<open>for car in cars\<close> over a list; an exception ends the loop.\<close>
fun update_loop :: "json \<Rightarrow> json list \<Rightarrow> nat \<Rightarrow> nat \<Rightarrow> error + (json list \<times> nat \<times> nat)" where
  "update_loop stats [] updated_count missing_count = Inr ([], updated_count, missing_count)"
| "update_loop stats (car # rest) updated_count missing_count =
     and_then (loop_body stats car updated_count missing_count) (\<lambda>(car', u, m).
       and_then (update_loop stats rest u m) (\<lambda>(rest', u', m').
         Inr (car' # rest', u', m')))"

text \<open>
  The loop over whatever \<^verbatim>\<open>json.load\<close> returned for the catalog. A list is iterated; an
  empty dict or string gives no iteration at all; iterating a non-empty dict or string
  yields strings, and \<^verbatim>\<open>car['make']\<close> on a string is a \<^verbatim>\<open>TypeError\<close>, as is iterating
  any other value.
\<close>
definition process_catalog :: "json \<Rightarrow> json \<Rightarrow> error + (json \<times> nat \<times> nat)" where
  "process_catalog stats cars =
     (case cars of
        JArr cs \<Rightarrow> and_then (update_loop stats cs 0 0) (\<lambda>(cs', u, m). Inr (JArr cs', u, m))
      | JObj kvs \<Rightarrow> if kvs = [] then Inr (cars, 0, 0) else Inl TypeError
      | JStr s \<Rightarrow> if s = [] then Inr (cars, 0, 0) else Inl TypeError
      | _ \<Rightarrow> Inl TypeError)"

text \<open>
  The two files, as the values \<^verbatim>\<open>json.load\<close> reads from them and \<^verbatim>\<open>json.dump\<close> writes.
\<close>
record files =
  cars_file :: json
  stats_file :: json

text \<open>
  \<^verbatim>\<open>update_prices()\<close>: the files after the run, and either the exception that ended it or
  the two counts it prints (updated, missing). The catalog is written only after the loop
  (lines 77 and 78), so an exception leaves both files as they were.
\<close>
definition update_prices :: "files \<Rightarrow> files \<times> (error + nat \<times> nat)" where
  "update_prices fs =
     (case process_catalog (stats_file fs) (cars_file fs) of
        Inl e \<Rightarrow> (fs, Inl e)
      | Inr (cars', updated_count, missing_count) \<Rightarrow>
          (fs\<lparr>cars_file := cars'\<rparr>, Inr (updated_count, missing_count)))"

section \<open>Concrete catalogs and statistics tables\<close>

text \<open>The vehicle of the concrete scenarios, as the list of its fields.\<close>
definition focus_fields :: "(string \<times> json) list" where
  "focus_fields =
     [(''make'', JStr ''Ford''), (''model'', JStr ''Focus''), (''fuelType'', JStr ''Petrol''),
      (''yearOfManufacture'', JInt 2018), (''basicPrice'', JInt 5000),
      (''originalListPrice'', JInt 12000)]"

text \<open>A statistics table with the single bucket \<open>ford.focus.petrol\<close>.\<close>
definition focus_stats :: "(string \<times> json) list \<Rightarrow> json" where
  "focus_stats years = JObj [(''ford'', JObj [(''focus'', JObj [(''petrol'', JObj years)])])]"

definition avg_record :: "int \<Rightarrow> json" where
  "avg_record a = JObj [(''avgPrice'', JInt a)]"

text \<open>The same vehicle with a year that is not a number.\<close>
definition focus_bad_year :: "(string \<times> json) list" where
  "focus_bad_year =
     [(''make'', JStr ''Ford''), (''model'', JStr ''Focus''), (''fuelType'', JStr ''Petrol''),
      (''yearOfManufacture'', JStr ''20x8''), (''basicPrice'', JInt 5000),
      (''originalListPrice'', JInt 12000)]"

text \<open>The same vehicle without \<open>originalListPrice\<close>.\<close>
definition focus_no_list_price :: "(string \<times> json) list" where
  "focus_no_list_price =
     [(''make'', JStr ''Ford''), (''model'', JStr ''Focus''), (''fuelType'', JStr ''Petrol''),
      (''yearOfManufacture'', JInt 2018), (''basicPrice'', JInt 5000)]"

text \<open>A vehicle for which \<open>focus_stats\<close> has no bucket.\<close>
definition tt_fields :: "(string \<times> json) list" where
  "tt_fields =
     [(''make'', JStr ''Audi''), (''model'', JStr ''TT''), (''fuelType'', JStr ''Petrol''),
      (''yearOfManufacture'', JStr ''2010''), (''basicPrice'', JInt 9000),
      (''originalListPrice'', JInt 30000)]"

text \<open>The first vehicle without \<open>make\<close>.\<close>
definition focus_no_make :: "(string \<times> json) list" where
  "focus_no_make =
     [(''model'', JStr ''Focus''), (''fuelType'', JStr ''Petrol''),
      (''yearOfManufacture'', JInt 2018), (''basicPrice'', JInt 5000),
      (''originalListPrice'', JInt 12000)]"

section \<open>Basic facts\<close>

lemma and_then_Inl [simp]: "and_then (Inl e) f = Inl e"
  by (simp add: and_then_def)

lemma and_then_Inr [simp]: "and_then (Inr v) f = f v"
  by (simp add: and_then_def)

lemma and_then_eq_Inr: "and_then r f = Inr x \<longleftrightarrow> (\<exists>v. r = Inr v \<and> f v = Inr x)"
  by (cases r) simp_all

lemma and_then_eq_Inl: "and_then r f = Inl e \<longleftrightarrow> r = Inl e \<or> (\<exists>v. r = Inr v \<and> f v = Inl e)"
  by (cases r) simp_all

lemma update_loop_length:
  "update_loop stats cars u m = Inr (cars', u', m') \<Longrightarrow> length cars' = length cars"
proof (induction cars arbitrary: u m cars' u' m')
  case Nil
  then show ?case by simp
next
  case (Cons car rest)
  then show ?case
    by (auto simp: and_then_eq_Inr)
qed

lemma update_loop_nth:
  "update_loop stats cars u m = Inr (cars', u', m') \<Longrightarrow> i < length cars \<Longrightarrow>
     \<exists>u1 m1 u2 m2. loop_body stats (cars ! i) u1 m1 = Inr (cars' ! i, u2, m2)"
proof (induction cars arbitrary: u m cars' u' m' i)
  case Nil
  then show ?case by simp
next
  case (Cons car rest)
  from Cons.prems(1) obtain c1 u1 m1 rest' where
    b: "loop_body stats car u m = Inr (c1, u1, m1)" and
    r: "update_loop stats rest u1 m1 = Inr (rest', u', m')" and
    c: "cars' = c1 # rest'"
    by (auto simp: and_then_eq_Inr)
  show ?case
  proof (cases i)
    case 0
    with b c show ?thesis by auto
  next
    case (Suc j)
    with Cons.prems(2) have "j < length rest" by simp
    from Cons.IH [OF r this] Suc c show ?thesis by simp
  qed
qed

lemma update_loop_fails:
  "car \<in> set cars \<Longrightarrow> (\<And>u m. \<exists>e. loop_body stats car u m = Inl e) \<Longrightarrow>
     \<exists>e. update_loop stats cars u m = Inl e"
proof (induction cars arbitrary: u m)
  case Nil
  then show ?case by simp
next
  case (Cons c rest)
  show ?case
  proof (cases "loop_body stats c u m")
    case (Inl e)
    then show ?thesis by simp
  next
    case (Inr r)
    obtain c1 u1 m1 where r: "r = (c1, u1, m1)" by (cases r) auto
    from Inr Cons.prems(2) [of u m] have "c \<noteq> car" by auto
    with Cons.prems(1) have "car \<in> set rest" by simp
    from Cons.IH [OF this Cons.prems(2)] obtain e where "update_loop stats rest u1 m1 = Inl e"
      by blast
    with Inr r show ?thesis by simp
  qed
qed


lemma py_getitem_JObj: "py_getitem c k = Inr v \<Longrightarrow> \<exists>kvs. c = JObj kvs \<and> map_of kvs k = Some v"
  by (auto simp: py_getitem_def split: json.splits option.splits)

lemma py_getitem_Some: "map_of kvs k = Some v \<Longrightarrow> py_getitem (JObj kvs) k = Inr v"
  by (simp add: py_getitem_def)

lemma py_getitem_None: "map_of kvs k = None \<Longrightarrow> py_getitem (JObj kvs) k = Inl (KeyError k)"
  by (simp add: py_getitem_def)

lemma loop_body_fields:
  assumes "py_getitem car ''make'' = Inr v1" "normalize_key v1 = Inr mk"
    and "py_getitem car ''model'' = Inr v2" "normalize_key v2 = Inr mdl"
    and "py_getitem car ''fuelType'' = Inr v3" "normalize_key v3 = Inr fl"
    and "py_getitem car ''yearOfManufacture'' = Inr v4" "py_int v4 = Inr y"
  shows "loop_body stats car u m =
           and_then (find_data stats mk mdl fl (target_lookup_year y))
             (\<lambda>found_data. apply_found car found_data u m)"
  using assms by (simp add: loop_body_def)

lemma loop_body_Inr:
  assumes "loop_body stats car u m = Inr res"
  shows "\<exists>v1 mk v2 mdl v3 fl v4 y fd.
           py_getitem car ''make'' = Inr v1 \<and> normalize_key v1 = Inr mk \<and>
           py_getitem car ''model'' = Inr v2 \<and> normalize_key v2 = Inr mdl \<and>
           py_getitem car ''fuelType'' = Inr v3 \<and> normalize_key v3 = Inr fl \<and>
           py_getitem car ''yearOfManufacture'' = Inr v4 \<and> py_int v4 = Inr y \<and>
           find_data stats mk mdl fl (target_lookup_year y) = Inr fd \<and>
           apply_found car fd u m = Inr res"
  using assms unfolding loop_body_def and_then_eq_Inr by blast

lemma apply_found_falsy:
  "\<not> truthy fd \<Longrightarrow> apply_found car fd u m = Inr (car, u, m + 1)"
  by (simp add: apply_found_def)

lemma apply_found_truthy:
  assumes "truthy fd" "py_getitem fd ''avgPrice'' = Inr avg" "new_price avg = Inr np"
    and "py_getitem car ''basicPrice'' = Inr bp"
  shows "apply_found car fd u m =
           (if py_ne_int np bp
            then and_then (sanity_check (set_basic_price car np))
                   (\<lambda>_. Inr (set_basic_price car np, u + 1, m))
            else and_then (sanity_check car) (\<lambda>_. Inr (car, u, m)))"
  using assms by (simp add: apply_found_def)

lemma apply_found_Inr:
  assumes "apply_found car fd u m = Inr (car', u', m')"
  shows "(\<not> truthy fd \<and> car' = car \<and> u' = u \<and> m' = m + 1) \<or>
         (truthy fd \<and> (\<exists>avg np bp.
            py_getitem fd ''avgPrice'' = Inr avg \<and> new_price avg = Inr np \<and>
            py_getitem car ''basicPrice'' = Inr bp \<and> sanity_check car' = Inr () \<and> m' = m \<and>
            ((py_ne_int np bp \<and> car' = set_basic_price car np \<and> u' = u + 1) \<or>
             (\<not> py_ne_int np bp \<and> car' = car \<and> u' = u))))"
proof (cases "truthy fd")
  case False
  with assms show ?thesis by (simp add: apply_found_def)
next
  case True
  with assms obtain avg np bp where
    a: "py_getitem fd ''avgPrice'' = Inr avg" and n: "new_price avg = Inr np" and
    b: "py_getitem car ''basicPrice'' = Inr bp"
    by (auto simp: apply_found_def and_then_eq_Inr)
  from assms have r: "(if py_ne_int np bp
            then and_then (sanity_check (set_basic_price car np))
                   (\<lambda>_. Inr (set_basic_price car np, u + 1, m))
            else and_then (sanity_check car) (\<lambda>_. Inr (car, u, m))) = Inr (car', u', m')"
    by (simp add: apply_found_truthy [OF True a n b])
  show ?thesis
  proof (cases "py_ne_int np bp")
    case True
    with r have "sanity_check car' = Inr () \<and> car' = set_basic_price car np \<and> u' = u + 1 \<and> m' = m"
      by (auto simp: and_then_eq_Inr)
    with \<open>truthy fd\<close> a n b True show ?thesis by blast
  next
    case False
    with r have "sanity_check car' = Inr () \<and> car' = car \<and> u' = u \<and> m' = m"
      by (auto simp: and_then_eq_Inr)
    with \<open>truthy fd\<close> a n b False show ?thesis by blast
  qed
qed


lemma find_data_no_path:
  "path_exists stats mk mdl fl = Inr False \<Longrightarrow> find_data stats mk mdl fl t = Inr JNull"
  by (simp add: find_data_def)


lemma update_prices_nth:
  assumes "update_prices fs = (fs', Inr r)" "cars_file fs = JArr cars" "i < length cars"
  shows "\<exists>cars' u1 m1 u2 m2. cars_file fs' = JArr cars' \<and> length cars' = length cars \<and>
           loop_body (stats_file fs) (cars ! i) u1 m1 = Inr (cars' ! i, u2, m2)"
proof -
  from assms(1,2) obtain cars' u m where
    l: "update_loop (stats_file fs) cars 0 0 = Inr (cars', u, m)" and f: "fs' = fs\<lparr>cars_file := JArr cars'\<rparr>"
    by (auto simp: update_prices_def process_catalog_def and_then_eq_Inr split: sum.splits)
  from update_loop_nth [OF l assms(3)] update_loop_length [OF l] f show ?thesis
    by auto
qed

text \<open>\<^verbatim>\<open>int\<close> on a string of digits: never an exception, and the value that \<open>avail_years\<close> uses.\<close>

lemma py_int_digits_all_digits:
  "list_all py_isdigit_char s \<Longrightarrow> s \<noteq> [] \<Longrightarrow>
     py_int_digits s acc prev = Some (foldl (\<lambda>acc c. acc * 10 + digit_val c) acc s)"
proof (induction s arbitrary: acc prev)
  case Nil
  then show ?case by simp
next
  case (Cons c cs)
  show ?case
  proof (cases "cs = []")
    case True
    with Cons.prems show ?thesis by simp
  next
    case False
    from Cons.prems(1) have "list_all py_isdigit_char cs" by simp
    from Cons.IH [OF this False, of "acc * 10 + digit_val c" True] Cons.prems(1)
    show ?thesis by simp
  qed
qed

lemma digit_not_space: "py_isdigit_char c \<Longrightarrow> \<not> py_isspace c"
  by (simp add: py_isdigit_char_def py_isspace_def Let_def)

lemma py_strip_digits:
  assumes "list_all py_isdigit_char s"
  shows "py_strip s = s"
proof -
  have 1: "dropWhile py_isspace t = t" if "list_all py_isdigit_char t" for t
    using that by (cases t) (simp_all add: digit_not_space)
  have "list_all py_isdigit_char (rev s)" using assms by (simp add: list_all_iff)
  with assms show ?thesis by (simp add: py_strip_def 1)
qed

lemma py_int_str_digits:
  assumes "py_isdigit y"
  shows "py_int_str y = Some (foldl (\<lambda>acc c. acc * 10 + digit_val c) 0 y)"
proof -
  from assms obtain c cs where y: "y = c # cs" and d: "list_all py_isdigit_char (c # cs)"
    by (cases y) (auto simp: py_isdigit_def)
  from d have "py_isdigit_char c" by simp
  then have "c \<noteq> CHR ''-''" "c \<noteq> CHR ''+''"
    by (auto simp: py_isdigit_char_def)
  with py_int_digits_all_digits [OF d, of 0 False] show ?thesis
    by (simp add: py_int_str_def py_strip_digits [OF d] y)
qed

section \<open>The properties of the specification\<close>

text \<open>
  C10. When the record selected for a vehicle, by exact match or by the closest year, is
  the empty mapping, the loop body does not read \<open>avgPrice\<close> and raises nothing: the
  vehicle is left as it is and counted in \<open>missing\<close>, as for a lookup miss.
\<close>
theorem C10_empty_record_is_a_miss:
  assumes "py_getitem car ''make'' = Inr v1" "normalize_key v1 = Inr mk"
    and "py_getitem car ''model'' = Inr v2" "normalize_key v2 = Inr mdl"
    and "py_getitem car ''fuelType'' = Inr v3" "normalize_key v3 = Inr fl"
    and "py_getitem car ''yearOfManufacture'' = Inr v4" "py_int v4 = Inr y"
    and "find_data stats mk mdl fl (target_lookup_year y) = Inr (JObj [])"
  shows "loop_body stats car u m = Inr (car, u, m + 1)"
  using assms(9) by (simp add: loop_body_fields [OF assms(1-8)] apply_found_falsy truthy_def)

theorem C10_witness:
  "find_data (focus_stats [(''2013'', JObj [])]) ''ford'' ''focus'' ''petrol''
      (target_lookup_year 2018) = Inr (JObj []) \<and>
   loop_body (focus_stats [(''2013'', JObj [])]) (JObj focus_fields) 3 4
     = Inr (JObj focus_fields, 3, 5)"
proof -
  have 1: "py_getitem (JObj focus_fields) ''make'' = Inr (JStr ''Ford'')" by code_simp
  have 2: "normalize_key (JStr ''Ford'') = Inr ''ford''" by code_simp
  have 3: "py_getitem (JObj focus_fields) ''model'' = Inr (JStr ''Focus'')" by code_simp
  have 4: "normalize_key (JStr ''Focus'') = Inr ''focus''" by code_simp
  have 5: "py_getitem (JObj focus_fields) ''fuelType'' = Inr (JStr ''Petrol'')" by code_simp
  have 6: "normalize_key (JStr ''Petrol'') = Inr ''petrol''" by code_simp
  have 7: "py_getitem (JObj focus_fields) ''yearOfManufacture'' = Inr (JInt 2018)" by code_simp
  have 8: "py_int (JInt 2018) = Inr 2018" by code_simp
  have 9: "find_data (focus_stats [(''2013'', JObj [])]) ''ford'' ''focus'' ''petrol''
      (target_lookup_year 2018) = Inr (JObj [])" by code_simp
  from C10_empty_record_is_a_miss [OF 1 2 3 4 5 6 7 8 9, of 3 4] 9 show ?thesis by simp
qed

text \<open>
  C6. A vehicle whose normalized make, model and fuel type do not lead to a bucket of the
  statistics table is returned by the loop body as it was, with \<open>missing\<close> one higher and
  \<open>updated\<close> as before; and in the catalog written by a completed run the record at its
  position is the record that was read.
\<close>
theorem C6_lookup_miss_unchanged:
  assumes "py_getitem car ''make'' = Inr v1" "normalize_key v1 = Inr mk"
    and "py_getitem car ''model'' = Inr v2" "normalize_key v2 = Inr mdl"
    and "py_getitem car ''fuelType'' = Inr v3" "normalize_key v3 = Inr fl"
    and "py_getitem car ''yearOfManufacture'' = Inr v4" "py_int v4 = Inr y"
    and "path_exists stats mk mdl fl = Inr False"
  shows "loop_body stats car u m = Inr (car, u, m + 1) \<and>
         (\<forall>fs fs' r cars i.
            update_prices fs = (fs', Inr r) \<and> stats_file fs = stats \<and>
            cars_file fs = JArr cars \<and> i < length cars \<and> cars ! i = car \<longrightarrow>
            (\<exists>cars'. cars_file fs' = JArr cars' \<and> length cars' = length cars \<and> cars' ! i = car))"
proof -
  have b: "loop_body stats car u m = Inr (car, u, m + 1)" for u m
    by (simp add: loop_body_fields [OF assms(1-8)] find_data_no_path [OF assms(9)]
        apply_found_falsy truthy_def)
  have "\<exists>cars'. cars_file fs' = JArr cars' \<and> length cars' = length cars \<and> cars' ! i = car"
    if "update_prices fs = (fs', Inr r)" "stats_file fs = stats"
      "cars_file fs = JArr cars" "i < length cars" "cars ! i = car" for fs fs' r cars i
    using update_prices_nth [OF that(1,3,4)] that(2,5) b by auto
  with b show ?thesis by blast
qed

theorem C6_witness:
  "path_exists (JObj []) ''ford'' ''focus'' ''petrol'' = Inr False \<and>
   loop_body (JObj []) (JObj focus_fields) 2 7 = Inr (JObj focus_fields, 2, 8) \<and>
   update_prices \<lparr>cars_file = JArr [JObj focus_fields], stats_file = JObj []\<rparr>
     = (\<lparr>cars_file = JArr [JObj focus_fields], stats_file = JObj []\<rparr>, Inr (0, 1))"
proof -
  have 1: "py_getitem (JObj focus_fields) ''make'' = Inr (JStr ''Ford'')" by code_simp
  have 2: "normalize_key (JStr ''Ford'') = Inr ''ford''" by code_simp
  have 3: "py_getitem (JObj focus_fields) ''model'' = Inr (JStr ''Focus'')" by code_simp
  have 4: "normalize_key (JStr ''Focus'') = Inr ''focus''" by code_simp
  have 5: "py_getitem (JObj focus_fields) ''fuelType'' = Inr (JStr ''Petrol'')" by code_simp
  have 6: "normalize_key (JStr ''Petrol'') = Inr ''petrol''" by code_simp
  have 7: "py_getitem (JObj focus_fields) ''yearOfManufacture'' = Inr (JInt 2018)" by code_simp
  have 8: "py_int (JInt 2018) = Inr 2018" by code_simp
  have 9: "path_exists (JObj []) ''ford'' ''focus'' ''petrol'' = Inr False" by code_simp
  have r: "update_prices \<lparr>cars_file = JArr [JObj focus_fields], stats_file = JObj []\<rparr>
     = (\<lparr>cars_file = JArr [JObj focus_fields], stats_file = JObj []\<rparr>, Inr (0, 1))"
    by code_simp
  from C6_lookup_miss_unchanged [OF 1 2 3 4 5 6 7 8 9, of 2 7] 9 r show ?thesis by simp
qed

lemma py_getitem_set_basic_price:
  "py_getitem (set_basic_price (JObj kvs) np) k =
     (if k = ''basicPrice'' then Inr (JInt np) else py_getitem (JObj kvs) k)"
  by (simp add: set_basic_price_def py_getitem_def update_conv')






lemma loop_body_bad_year:
  assumes "py_getitem car ''yearOfManufacture'' = Inr (JStr s)" "py_int_str s = None"
  shows "\<exists>e. loop_body stats car u m = Inl e"
proof -
  have "py_int (JStr s) = Inl ValueError" using assms(2) by (simp add: py_int_def)
  with assms(1) show ?thesis
    by (auto simp: loop_body_def and_then_def split: sum.splits)
qed

lemma update_prices_fails:
  assumes "cars_file fs = JArr cars" "car \<in> set cars"
    and "\<And>u m. \<exists>e. loop_body (stats_file fs) car u m = Inl e"
  shows "\<exists>e. update_prices fs = (fs, Inl e)"
proof -
  from update_loop_fails [OF assms(2,3)] obtain e where
    "update_loop (stats_file fs) cars 0 0 = Inl e" by blast
  with assms(1) show ?thesis
    by (simp add: update_prices_def process_catalog_def)
qed

text \<open>
  C3. If any vehicle of the catalog has a \<open>yearOfManufacture\<close> string that \<open>int\<close> cannot
  convert, the run ends with an exception and both files are as they were before the run:
  the catalog is not rewritten.
\<close>
theorem C3_bad_year_aborts_run:
  assumes "cars_file fs = JArr cars" "car \<in> set cars"
    and "py_getitem car ''yearOfManufacture'' = Inr (JStr s)" "py_int_str s = None"
  shows "\<exists>e. update_prices fs = (fs, Inl e)"
  using assms(1,2) by (rule update_prices_fails) (rule loop_body_bad_year [OF assms(3,4)])

theorem C3_witness:
  "py_int_str ''20x8'' = None \<and>
   update_prices \<lparr>cars_file = JArr [JObj focus_fields, JObj focus_bad_year],
                  stats_file = focus_stats [(''2014'', avg_record 6430)]\<rparr> =
     (\<lparr>cars_file = JArr [JObj focus_fields, JObj focus_bad_year],
       stats_file = focus_stats [(''2014'', avg_record 6430)]\<rparr>, Inl ValueError)"
proof -
  let ?fs = "\<lparr>cars_file = JArr [JObj focus_fields, JObj focus_bad_year],
                  stats_file = focus_stats [(''2014'', avg_record 6430)]\<rparr>"
  have 1: "cars_file ?fs = JArr [JObj focus_fields, JObj focus_bad_year]" by simp
  have 2: "JObj focus_bad_year \<in> set [JObj focus_fields, JObj focus_bad_year]" by simp
  have 3: "py_getitem (JObj focus_bad_year) ''yearOfManufacture'' = Inr (JStr ''20x8'')"
    by code_simp
  have 4: "py_int_str ''20x8'' = None" by code_simp
  have 5: "snd (update_prices ?fs) = Inl ValueError" by code_simp
  from C3_bad_year_aborts_run [OF 1 2 3 4] obtain e where "update_prices ?fs = (?fs, Inl e)"
    by blast
  with 4 5 show ?thesis by simp
qed

lemma update_nth_other:
  "j < length al \<Longrightarrow> fst (al ! j) \<noteq> k \<Longrightarrow> AList.update k v al ! j = al ! j"
proof (induction al arbitrary: j)
  case Nil
  then show ?case by simp
next
  case (Cons p ps)
  then show ?case by (cases j) (auto simp: split_beta)
qed

lemma update_same_keys:
  "k \<in> fst ` set al \<Longrightarrow> map fst (AList.update k v al) = map fst al"
  by (simp add: update_keys)

lemma loop_body_frame:
  assumes "loop_body stats car u m = Inr (car', u', m')"
  shows "car' = car \<or>
         (\<exists>kvs np. car = JObj kvs \<and> ''basicPrice'' \<in> fst ` set kvs \<and>
            car' = JObj (AList.update ''basicPrice'' (JInt np) kvs))"
proof -
  from loop_body_Inr [OF assms] obtain fd where
    a: "apply_found car fd u m = Inr (car', u', m')" by blast
  from apply_found_Inr [OF a] show ?thesis
  proof
    assume "\<not> truthy fd \<and> car' = car \<and> u' = u \<and> m' = m + 1"
    then show ?thesis by simp
  next
    assume "truthy fd \<and> (\<exists>avg np bp.
            py_getitem fd ''avgPrice'' = Inr avg \<and> new_price avg = Inr np \<and>
            py_getitem car ''basicPrice'' = Inr bp \<and> sanity_check car' = Inr () \<and> m' = m \<and>
            ((py_ne_int np bp \<and> car' = set_basic_price car np \<and> u' = u + 1) \<or>
             (\<not> py_ne_int np bp \<and> car' = car \<and> u' = u)))"
    then obtain np bp where
      bp: "py_getitem car ''basicPrice'' = Inr bp" and
      d: "car' = set_basic_price car np \<or> car' = car"
      by blast
    from bp obtain kvs where k: "car = JObj kvs" "map_of kvs ''basicPrice'' = Some bp"
      by (auto dest: py_getitem_JObj)
    from k(2) have "''basicPrice'' \<in> fst ` set kvs"
      by (metis domI dom_map_of_conv_image_fst)
    with d k(1) show ?thesis by (auto simp: set_basic_price_def)
  qed
qed

text \<open>
  C7. Whatever the run does, the statistics file is not written, and the catalog that is
  in the file afterwards has as many records as the one that was read, in the same order:
  the record at each position is the record read there, or that record with the same keys
  in the same order and the same value at every key other than \<open>basicPrice\<close>.
\<close>
theorem C7_only_basic_price_changes:
  assumes "update_prices fs = (fs', r)" "cars_file fs = JArr cars"
  shows "stats_file fs' = stats_file fs \<and>
         (\<exists>cars'. cars_file fs' = JArr cars' \<and> length cars' = length cars \<and>
            (\<forall>i<length cars. cars' ! i = cars ! i \<or>
               (\<exists>kvs kvs'. cars ! i = JObj kvs \<and> cars' ! i = JObj kvs' \<and>
                  map fst kvs' = map fst kvs \<and>
                  (\<forall>j<length kvs. fst (kvs ! j) \<noteq> ''basicPrice'' \<longrightarrow> kvs' ! j = kvs ! j))))"
proof (cases r)
  case (Inl e)
  with assms have "fs' = fs"
    by (auto simp: update_prices_def split: sum.splits)
  with assms(2) show ?thesis by simp
next
  case (Inr cnt)
  have s: "stats_file fs' = stats_file fs"
    using assms(1) by (auto simp: update_prices_def split: sum.splits)
  from assms Inr obtain cars' u m where
    l: "update_loop (stats_file fs) cars 0 0 = Inr (cars', u, m)" and
    f: "cars_file fs' = JArr cars'"
    by (auto simp: update_prices_def process_catalog_def and_then_eq_Inr split: sum.splits)
  have len: "length cars' = length cars" using l by (rule update_loop_length)
  have "cars' ! i = cars ! i \<or>
               (\<exists>kvs kvs'. cars ! i = JObj kvs \<and> cars' ! i = JObj kvs' \<and>
                  map fst kvs' = map fst kvs \<and>
                  (\<forall>j<length kvs. fst (kvs ! j) \<noteq> ''basicPrice'' \<longrightarrow> kvs' ! j = kvs ! j))"
    if i: "i < length cars" for i
  proof -
    from update_loop_nth [OF l i] obtain u1 m1 u2 m2 where
      "loop_body (stats_file fs) (cars ! i) u1 m1 = Inr (cars' ! i, u2, m2)" by blast
    from loop_body_frame [OF this] show ?thesis
    proof
      assume "cars' ! i = cars ! i"
      then show ?thesis by simp
    next
      assume "\<exists>kvs np. cars ! i = JObj kvs \<and> ''basicPrice'' \<in> fst ` set kvs \<and>
            cars' ! i = JObj (AList.update ''basicPrice'' (JInt np) kvs)"
      then obtain kvs np where
        k: "cars ! i = JObj kvs" "''basicPrice'' \<in> fst ` set kvs"
           "cars' ! i = JObj (AList.update ''basicPrice'' (JInt np) kvs)"
        by blast
      have "map fst (AList.update ''basicPrice'' (JInt np) kvs) = map fst kvs"
        using k(2) by (rule update_same_keys)
      moreover have "\<forall>j<length kvs. fst (kvs ! j) \<noteq> ''basicPrice'' \<longrightarrow>
          AList.update ''basicPrice'' (JInt np) kvs ! j = kvs ! j"
        by (simp add: update_nth_other)
      ultimately show ?thesis using k(1,3) by blast
    qed
  qed
  with s f len show ?thesis by blast
qed

theorem C7_witness:
  "update_prices \<lparr>cars_file = JArr [JObj focus_fields],
                  stats_file = focus_stats [(''2014'', avg_record 6430)]\<rparr> =
     (\<lparr>cars_file = JArr [set_basic_price (JObj focus_fields) 6400],
       stats_file = focus_stats [(''2014'', avg_record 6430)]\<rparr>, Inr (1, 0)) \<and>
   (\<exists>kvs'. set_basic_price (JObj focus_fields) 6400 = JObj kvs' \<and>
      map fst kvs' = map fst focus_fields \<and>
      (\<forall>j<length focus_fields. fst (focus_fields ! j) \<noteq> ''basicPrice'' \<longrightarrow>
         kvs' ! j = focus_fields ! j))"
proof -
  let ?stats = "focus_stats [(''2014'', avg_record 6430)]"
  let ?fs = "\<lparr>cars_file = JArr [JObj focus_fields], stats_file = ?stats\<rparr>"
  let ?fs' = "\<lparr>cars_file = JArr [set_basic_price (JObj focus_fields) 6400], stats_file = ?stats\<rparr>"
  have 1: "update_prices ?fs = (?fs', Inr (1, 0))" by code_simp
  have 2: "cars_file ?fs = JArr [JObj focus_fields]" by simp
  have 3: "set_basic_price (JObj focus_fields) 6400 \<noteq> JObj focus_fields" by code_simp
  from C7_only_basic_price_changes [OF 1 2] have
    "[set_basic_price (JObj focus_fields) 6400] ! 0 = [JObj focus_fields] ! 0 \<or>
     (\<exists>kvs kvs'. [JObj focus_fields] ! 0 = JObj kvs \<and>
        [set_basic_price (JObj focus_fields) 6400] ! 0 = JObj kvs' \<and>
        map fst kvs' = map fst kvs \<and>
        (\<forall>j<length kvs. fst (kvs ! j) \<noteq> ''basicPrice'' \<longrightarrow> kvs' ! j = kvs ! j))"
    by simp
  with 3 have "\<exists>kvs'. set_basic_price (JObj focus_fields) 6400 = JObj kvs' \<and>
      map fst kvs' = map fst focus_fields \<and>
      (\<forall>j<length focus_fields. fst (focus_fields ! j) \<noteq> ''basicPrice'' \<longrightarrow>
         kvs' ! j = focus_fields ! j)"
    by auto
  with 1 show ?thesis by blast
qed

lemma loop_body_again:
  assumes "loop_body stats car u m = Inr (car', u', m')"
  shows "loop_body stats car' u2 m2 = Inr (car', u2, m2 + (m' - m)) \<and> m \<le> m'"
proof -
  from loop_body_Inr [OF assms] obtain v1 mk v2 mdl v3 fl v4 y fd where
    f: "py_getitem car ''make'' = Inr v1" "normalize_key v1 = Inr mk"
       "py_getitem car ''model'' = Inr v2" "normalize_key v2 = Inr mdl"
       "py_getitem car ''fuelType'' = Inr v3" "normalize_key v3 = Inr fl"
       "py_getitem car ''yearOfManufacture'' = Inr v4" "py_int v4 = Inr y" and
    fd: "find_data stats mk mdl fl (target_lookup_year y) = Inr fd" and
    a: "apply_found car fd u m = Inr (car', u', m')"
    by blast
  from f(1) obtain kvs where k: "car = JObj kvs" by (auto dest: py_getitem_JObj)
  from apply_found_Inr [OF a] show ?thesis
  proof
    assume n: "\<not> truthy fd \<and> car' = car \<and> u' = u \<and> m' = m + 1"
    then show ?thesis
      by (simp add: loop_body_fields [OF f] fd apply_found_falsy)
  next
    assume "truthy fd \<and> (\<exists>avg np bp.
            py_getitem fd ''avgPrice'' = Inr avg \<and> new_price avg = Inr np \<and>
            py_getitem car ''basicPrice'' = Inr bp \<and> sanity_check car' = Inr () \<and> m' = m \<and>
            ((py_ne_int np bp \<and> car' = set_basic_price car np \<and> u' = u + 1) \<or>
             (\<not> py_ne_int np bp \<and> car' = car \<and> u' = u)))"
    then obtain avg np bp where
      t: "truthy fd" and av: "py_getitem fd ''avgPrice'' = Inr avg" and
      np: "new_price avg = Inr np" and bp: "py_getitem car ''basicPrice'' = Inr bp" and
      sc: "sanity_check car' = Inr ()" and m: "m' = m" and
      d: "(py_ne_int np bp \<and> car' = set_basic_price car np) \<or>
          (\<not> py_ne_int np bp \<and> car' = car)"
      by blast
    from d show ?thesis
    proof
      assume c: "py_ne_int np bp \<and> car' = set_basic_price car np"
      have f': "py_getitem car' ''make'' = Inr v1" "normalize_key v1 = Inr mk"
       "py_getitem car' ''model'' = Inr v2" "normalize_key v2 = Inr mdl"
       "py_getitem car' ''fuelType'' = Inr v3" "normalize_key v3 = Inr fl"
       "py_getitem car' ''yearOfManufacture'' = Inr v4" "py_int v4 = Inr y"
        using f c by (simp_all add: k py_getitem_set_basic_price)
      have bp': "py_getitem car' ''basicPrice'' = Inr (JInt np)"
        using c by (simp add: k py_getitem_set_basic_price)
      have ne: "\<not> py_ne_int np (JInt np)" by (simp add: py_ne_int_def num_of_def)
      show ?thesis
        by (simp add: loop_body_fields [OF f'] fd apply_found_truthy [OF t av np bp'] ne sc m)
    next
      assume c: "\<not> py_ne_int np bp \<and> car' = car"
      then show ?thesis
        using sc by (simp add: loop_body_fields [OF f] fd apply_found_truthy [OF t av np bp] m)
    qed
  qed
qed

lemma update_loop_again:
  "update_loop stats cars u m = Inr (cars', u', m') \<Longrightarrow>
     update_loop stats cars' u2 m2 = Inr (cars', u2, m2 + (m' - m)) \<and> m \<le> m'"
proof (induction cars arbitrary: u m cars' u' m' u2 m2)
  case Nil
  then show ?case by simp
next
  case (Cons car rest)
  from Cons.prems obtain c1 u1 m1 rest' where
    b: "loop_body stats car u m = Inr (c1, u1, m1)" and
    r: "update_loop stats rest u1 m1 = Inr (rest', u', m')" and
    c: "cars' = c1 # rest'"
    by (auto simp: and_then_eq_Inr)
  from loop_body_again [OF b] have
    b': "loop_body stats c1 u2 m2 = Inr (c1, u2, m2 + (m1 - m))" and le: "m \<le> m1"
    by simp_all
  from Cons.IH [OF r] have
    r': "update_loop stats rest' u2 (m2 + (m1 - m)) = Inr (rest', u2, m2 + (m1 - m) + (m' - m1))"
    and le': "m1 \<le> m'"
    by simp_all
  from b' r' c le le' show ?case by simp
qed

text \<open>
  C5. When a run completes, a second run on the files it left (the catalog it wrote, the
  same statistics) completes as well, reports no updated vehicle and as many missing ones
  as the first run, and leaves the files as the first run left them.
\<close>
theorem C5_second_run_changes_nothing:
  assumes "update_prices fs = (fs', Inr (u, m))"
  shows "update_prices fs' = (fs', Inr (0, m))"
proof -
  from assms obtain cars' where
    p: "process_catalog (stats_file fs) (cars_file fs) = Inr (cars', u, m)" and
    f: "fs' = fs\<lparr>cars_file := cars'\<rparr>"
    by (auto simp: update_prices_def split: sum.splits)
  have "process_catalog (stats_file fs) cars' = Inr (cars', 0, m)"
  proof (cases "cars_file fs")
    case (JArr cs)
    with p obtain cs' where
      l: "update_loop (stats_file fs) cs 0 0 = Inr (cs', u, m)" and c: "cars' = JArr cs'"
      by (auto simp: process_catalog_def and_then_eq_Inr)
    from update_loop_again [OF l, of 0 0] c show ?thesis
      by (simp add: process_catalog_def)
  next
    case (JObj kvs)
    with p have "cars' = JObj [] \<and> m = 0"
      by (auto simp: process_catalog_def split: if_splits)
    then show ?thesis by (simp add: process_catalog_def)
  next
    case (JStr s)
    with p have "cars' = JStr [] \<and> m = 0"
      by (auto simp: process_catalog_def split: if_splits)
    then show ?thesis by (simp add: process_catalog_def)
  qed (use p in \<open>simp_all add: process_catalog_def\<close>)
  with f show ?thesis by (simp add: update_prices_def)
qed

theorem C5_witness:
  "update_prices \<lparr>cars_file = JArr [JObj focus_fields, JObj tt_fields],
                  stats_file = focus_stats [(''2014'', avg_record 6430)]\<rparr> =
     (\<lparr>cars_file = JArr [set_basic_price (JObj focus_fields) 6400, JObj tt_fields],
       stats_file = focus_stats [(''2014'', avg_record 6430)]\<rparr>, Inr (1, 1)) \<and>
   update_prices
     \<lparr>cars_file = JArr [set_basic_price (JObj focus_fields) 6400, JObj tt_fields],
      stats_file = focus_stats [(''2014'', avg_record 6430)]\<rparr> =
     (\<lparr>cars_file = JArr [set_basic_price (JObj focus_fields) 6400, JObj tt_fields],
       stats_file = focus_stats [(''2014'', avg_record 6430)]\<rparr>, Inr (0, 1))"
proof -
  have 1: "update_prices \<lparr>cars_file = JArr [JObj focus_fields, JObj tt_fields],
                  stats_file = focus_stats [(''2014'', avg_record 6430)]\<rparr> =
     (\<lparr>cars_file = JArr [set_basic_price (JObj focus_fields) 6400, JObj tt_fields],
       stats_file = focus_stats [(''2014'', avg_record 6430)]\<rparr>, Inr (1, 1))"
    by code_simp
  from 1 C5_second_run_changes_nothing [OF 1] show ?thesis by (rule conjI)
qed

lemma sanity_check_numbers:
  assumes "py_getitem car ''basicPrice'' = Inr bp" "num_of bp = Some p"
    and "py_getitem car ''originalListPrice'' = Inr olp" "num_of olp = Some l"
  shows "sanity_check car = Inr ()"
  using assms by (simp add: sanity_check_def py_gt_def)

text \<open>
  C9. A vehicle for which a record is found and whose recomputed price equals its
  \<open>basicPrice\<close> leaves the loop body as it entered it, with both counters as they were.
  So the two counts can add up to less than the number of vehicles: the catalog with the
  one Ford Focus already priced at 6400 gives 0 updated and 0 missing.
\<close>
theorem C9_equal_price_counts_nowhere:
  assumes "py_getitem car ''make'' = Inr v1" "normalize_key v1 = Inr mk"
    and "py_getitem car ''model'' = Inr v2" "normalize_key v2 = Inr mdl"
    and "py_getitem car ''fuelType'' = Inr v3" "normalize_key v3 = Inr fl"
    and "py_getitem car ''yearOfManufacture'' = Inr v4" "py_int v4 = Inr y"
    and "find_data stats mk mdl fl (target_lookup_year y) = Inr found_data"
    and "truthy found_data" "py_getitem found_data ''avgPrice'' = Inr avg"
    and "new_price avg = Inr np"
    and "py_getitem car ''basicPrice'' = Inr bp" "\<not> py_ne_int np bp"
    and "py_getitem car ''originalListPrice'' = Inr olp" "num_of olp = Some l"
  shows "loop_body stats car u m = Inr (car, u, m) \<and>
         (\<exists>fs fs' cars u' m'. update_prices fs = (fs', Inr (u', m')) \<and>
            cars_file fs = JArr cars \<and> u' + m' < length cars)"
proof -
  from assms(14) have n: "num_of bp = Some np" by (simp add: py_ne_int_def)
  have s: "sanity_check car = Inr ()"
    using assms(13) n assms(15,16) by (rule sanity_check_numbers)
  have 1: "loop_body stats car u m = Inr (car, u, m)"
    using assms(14) s
    by (simp add: loop_body_fields [OF assms(1-8)] assms(9)
        apply_found_truthy [OF assms(10-13)])
  let ?fs = "\<lparr>cars_file = JArr [set_basic_price (JObj focus_fields) 6400],
              stats_file = focus_stats [(''2014'', avg_record 6430)]\<rparr>"
  have "update_prices ?fs = (?fs, Inr (0, 0))" by code_simp
  then have "update_prices ?fs = (?fs, Inr (0, 0)) \<and>
      cars_file ?fs = JArr [set_basic_price (JObj focus_fields) 6400] \<and>
      (0::nat) + 0 < length [set_basic_price (JObj focus_fields) 6400]"
    by simp
  then have 2: "\<exists>fs fs' cars u' m'. update_prices fs = (fs', Inr (u', m')) \<and>
            cars_file fs = JArr cars \<and> u' + m' < length cars"
    by blast
  from 1 2 show ?thesis by (rule conjI)
qed

theorem C9_witness:
  "\<not> py_ne_int 6400 (JInt 6400) \<and>
   loop_body (focus_stats [(''2014'', avg_record 6430)])
     (set_basic_price (JObj focus_fields) 6400) 4 2
     = Inr (set_basic_price (JObj focus_fields) 6400, 4, 2)"
proof -
  let ?car = "set_basic_price (JObj focus_fields) 6400"
  let ?stats = "focus_stats [(''2014'', avg_record 6430)]"
  have 1: "py_getitem ?car ''make'' = Inr (JStr ''Ford'')" by code_simp
  have 2: "normalize_key (JStr ''Ford'') = Inr ''ford''" by code_simp
  have 3: "py_getitem ?car ''model'' = Inr (JStr ''Focus'')" by code_simp
  have 4: "normalize_key (JStr ''Focus'') = Inr ''focus''" by code_simp
  have 5: "py_getitem ?car ''fuelType'' = Inr (JStr ''Petrol'')" by code_simp
  have 6: "normalize_key (JStr ''Petrol'') = Inr ''petrol''" by code_simp
  have 7: "py_getitem ?car ''yearOfManufacture'' = Inr (JInt 2018)" by code_simp
  have 8: "py_int (JInt 2018) = Inr 2018" by code_simp
  have 9: "find_data ?stats ''ford'' ''focus'' ''petrol'' (target_lookup_year 2018)
      = Inr (avg_record 6430)" by code_simp
  have 10: "truthy (avg_record 6430)" by code_simp
  have 11: "py_getitem (avg_record 6430) ''avgPrice'' = Inr (JInt 6430)" by code_simp
  have 12: "new_price (JInt 6430) = Inr 6400" by code_simp
  have 13: "py_getitem ?car ''basicPrice'' = Inr (JInt 6400)" by code_simp
  have 14: "\<not> py_ne_int 6400 (JInt 6400)" by code_simp
  have 15: "py_getitem ?car ''originalListPrice'' = Inr (JInt 12000)" by code_simp
  have 16: "num_of (JInt 12000) = Some 12000" by code_simp
  from C9_equal_price_counts_nowhere [OF 1 2 3 4 5 6 7 8 9 10 11 12 13 14 15 16, of 4 2] 14
  show ?thesis by simp
qed

text \<open>
  C8. For a vehicle with a found record and a numeric \<open>originalListPrice\<close>, the loop
  body writes the new price whenever it differs from \<open>basicPrice\<close> and counts the vehicle
  as updated, otherwise it changes nothing; the outcome is the same for every list price,
  below the new price or not, and it is the record that a completed run writes at the
  vehicle's position.
\<close>
theorem C8_sanity_check_changes_nothing:
  assumes "py_getitem car ''make'' = Inr v1" "normalize_key v1 = Inr mk"
    and "py_getitem car ''model'' = Inr v2" "normalize_key v2 = Inr mdl"
    and "py_getitem car ''fuelType'' = Inr v3" "normalize_key v3 = Inr fl"
    and "py_getitem car ''yearOfManufacture'' = Inr v4" "py_int v4 = Inr y"
    and "find_data stats mk mdl fl (target_lookup_year y) = Inr found_data"
    and "truthy found_data" "py_getitem found_data ''avgPrice'' = Inr avg"
    and "new_price avg = Inr np"
    and "py_getitem car ''basicPrice'' = Inr bp"
    and "py_getitem car ''originalListPrice'' = Inr olp" "num_of olp = Some l"
  shows "loop_body stats car u m =
           Inr (if py_ne_int np bp then (set_basic_price car np, u + 1, m) else (car, u, m)) \<and>
         (\<forall>fs fs' r cars i.
            update_prices fs = (fs', Inr r) \<and> stats_file fs = stats \<and>
            cars_file fs = JArr cars \<and> i < length cars \<and> cars ! i = car \<longrightarrow>
            (\<exists>cars'. cars_file fs' = JArr cars' \<and> length cars' = length cars \<and>
               cars' ! i = (if py_ne_int np bp then set_basic_price car np else car)))"
proof -
  from assms(13) obtain kvs where k: "car = JObj kvs" by (auto dest: py_getitem_JObj)
  have s1: "sanity_check (set_basic_price car np) = Inr ()"
  proof (rule sanity_check_numbers)
    show "py_getitem (set_basic_price car np) ''basicPrice'' = Inr (JInt np)"
      by (simp add: k py_getitem_set_basic_price)
    show "num_of (JInt np) = Some np" by (simp add: num_of_def)
    show "py_getitem (set_basic_price car np) ''originalListPrice'' = Inr olp"
      using assms(14) by (simp add: k py_getitem_set_basic_price)
    show "num_of olp = Some l" by (rule assms(15))
  qed
  have s2: "sanity_check car = Inr ()" if "\<not> py_ne_int np bp"
  proof (rule sanity_check_numbers)
    show "py_getitem car ''basicPrice'' = Inr bp" by (rule assms(13))
    show "num_of bp = Some np" using that by (simp add: py_ne_int_def)
    show "py_getitem car ''originalListPrice'' = Inr olp" by (rule assms(14))
    show "num_of olp = Some l" by (rule assms(15))
  qed
  have b: "loop_body stats car u m =
           Inr (if py_ne_int np bp then (set_basic_price car np, u + 1, m) else (car, u, m))"
    for u m
    using s1 s2
    by (simp add: loop_body_fields [OF assms(1-8)] assms(9)
        apply_found_truthy [OF assms(10-13)])
  have "\<exists>cars'. cars_file fs' = JArr cars' \<and> length cars' = length cars \<and>
               cars' ! i = (if py_ne_int np bp then set_basic_price car np else car)"
    if "update_prices fs = (fs', Inr r)" "stats_file fs = stats"
      "cars_file fs = JArr cars" "i < length cars" "cars ! i = car" for fs fs' r cars i
  proof -
    from update_prices_nth [OF that(1,3,4)] that(2,5) obtain cars' u1 m1 u2 m2 where
      c: "cars_file fs' = JArr cars'" "length cars' = length cars" and
      l: "loop_body stats car u1 m1 = Inr (cars' ! i, u2, m2)"
      by auto
    from l b [of u1 m1] have "cars' ! i = (if py_ne_int np bp then set_basic_price car np else car)"
      by (simp split: if_splits)
    with c show ?thesis by blast
  qed
  with b show ?thesis by blast
qed

theorem C8_witness:
  "new_price (JInt 20000) = Inr 20000 \<and> py_ne_int 20000 (JInt 5000) \<and>
   py_gt (JInt 20000) (JInt 12000) = Inr True \<and>
   loop_body (focus_stats [(''2014'', avg_record 20000)]) (JObj focus_fields) 0 0
     = Inr (set_basic_price (JObj focus_fields) 20000, 1, 0)"
proof -
  let ?car = "JObj focus_fields"
  let ?stats = "focus_stats [(''2014'', avg_record 20000)]"
  have 1: "py_getitem ?car ''make'' = Inr (JStr ''Ford'')" by code_simp
  have 2: "normalize_key (JStr ''Ford'') = Inr ''ford''" by code_simp
  have 3: "py_getitem ?car ''model'' = Inr (JStr ''Focus'')" by code_simp
  have 4: "normalize_key (JStr ''Focus'') = Inr ''focus''" by code_simp
  have 5: "py_getitem ?car ''fuelType'' = Inr (JStr ''Petrol'')" by code_simp
  have 6: "normalize_key (JStr ''Petrol'') = Inr ''petrol''" by code_simp
  have 7: "py_getitem ?car ''yearOfManufacture'' = Inr (JInt 2018)" by code_simp
  have 8: "py_int (JInt 2018) = Inr 2018" by code_simp
  have 9: "find_data ?stats ''ford'' ''focus'' ''petrol'' (target_lookup_year 2018)
      = Inr (avg_record 20000)" by code_simp
  have 10: "truthy (avg_record 20000)" by code_simp
  have 11: "py_getitem (avg_record 20000) ''avgPrice'' = Inr (JInt 20000)" by code_simp
  have 12: "new_price (JInt 20000) = Inr 20000" by code_simp
  have 13: "py_getitem ?car ''basicPrice'' = Inr (JInt 5000)" by code_simp
  have 14: "py_getitem ?car ''originalListPrice'' = Inr (JInt 12000)" by code_simp
  have 15: "num_of (JInt 12000) = Some 12000" by code_simp
  have 16: "py_ne_int 20000 (JInt 5000)" by code_simp
  have 17: "py_gt (JInt 20000) (JInt 12000) = Inr True" by code_simp
  from C8_sanity_check_changes_nothing [OF 1 2 3 4 5 6 7 8 9 10 11 12 13 14 15, of 0 0] 12 16 17
  show ?thesis by simp
qed








lemma loop_body_missing_early:
  assumes "map_of kvs f = None"
    and "f = ''make'' \<or> f = ''model'' \<or> f = ''fuelType'' \<or> f = ''yearOfManufacture''"
  shows "\<exists>e. loop_body stats (JObj kvs) u m = Inl e"
proof -
  have "py_getitem (JObj kvs) f = Inl (KeyError f)" using assms(1) by (rule py_getitem_None)
  with assms(2) show ?thesis
    by (auto simp: loop_body_def and_then_def split: sum.splits)
qed

lemma loop_body_no_basic_price:
  assumes "py_getitem car ''make'' = Inr v1" "normalize_key v1 = Inr mk"
    and "py_getitem car ''model'' = Inr v2" "normalize_key v2 = Inr mdl"
    and "py_getitem car ''fuelType'' = Inr v3" "normalize_key v3 = Inr fl"
    and "py_getitem car ''yearOfManufacture'' = Inr v4" "py_int v4 = Inr y"
    and "find_data stats mk mdl fl (target_lookup_year y) = Inr fd"
    and "truthy fd" "py_getitem fd ''avgPrice'' = Inr avg" "new_price avg = Inr np"
    and "py_getitem car ''basicPrice'' = Inl e"
  shows "loop_body stats car u m = Inl e"
  using assms(10-13) by (simp add: loop_body_fields [OF assms(1-8)] assms(9) apply_found_def)

lemma loop_body_no_list_price:
  assumes "py_getitem car ''make'' = Inr v1" "normalize_key v1 = Inr mk"
    and "py_getitem car ''model'' = Inr v2" "normalize_key v2 = Inr mdl"
    and "py_getitem car ''fuelType'' = Inr v3" "normalize_key v3 = Inr fl"
    and "py_getitem car ''yearOfManufacture'' = Inr v4" "py_int v4 = Inr y"
    and "find_data stats mk mdl fl (target_lookup_year y) = Inr fd"
    and "truthy fd" "py_getitem fd ''avgPrice'' = Inr avg" "new_price avg = Inr np"
    and "py_getitem car ''basicPrice'' = Inr bp"
    and "py_getitem car ''originalListPrice'' = Inl e"
  shows "loop_body stats car u m = Inl e"
proof -
  from assms(13) obtain kvs where k: "car = JObj kvs" by (auto dest: py_getitem_JObj)
  have 1: "sanity_check car = Inl e"
    using assms(13,14) by (simp add: sanity_check_def)
  have 2: "sanity_check (set_basic_price car np) = Inl e"
    using assms(14) by (simp add: sanity_check_def k py_getitem_set_basic_price)
  show ?thesis
    using 1 2
    by (simp add: loop_body_fields [OF assms(1-8)] assms(9)
        apply_found_truthy [OF assms(10-13)])
qed

text \<open>
  C4, as the code has it. Nothing validates a record: a field is missed only where the
  loop body reads it, and the exception is Python's \<open>KeyError\<close>, which carries the key and
  no record index.
  \<^item> A record without \<open>make\<close>, \<open>model\<close>, \<open>fuelType\<close> or \<open>yearOfManufacture\<close> ends the run
    with an exception, both files unchanged; the loop body raises \<open>KeyError\<close> with the
    name of the field when the fields read before it are strings.
  \<^item> A record without \<open>basicPrice\<close>, or with it and without \<open>originalListPrice\<close>, makes
    the loop body raise \<open>KeyError\<close> with the name of the field when a non-empty record
    with a numeric \<open>avgPrice\<close> is found for the vehicle.
  \<^item> When no record is found, neither of the two fields is read: the vehicle is counted
    in \<open>missing\<close> and left as it is.
\<close>
theorem C4_missing_field_raises_where_read:
  assumes "car = JObj kvs"
  shows "((f = ''make'' \<or> f = ''model'' \<or> f = ''fuelType'' \<or> f = ''yearOfManufacture'') \<and>
          map_of kvs f = None \<and> cars_file fs = JArr cars \<and> car \<in> set cars \<longrightarrow>
            (\<exists>e. update_prices fs = (fs, Inl e))) \<and>
         (map_of kvs ''make'' = None \<longrightarrow> loop_body stats car u m = Inl (KeyError ''make'')) \<and>
         (py_getitem car ''make'' = Inr v1 \<and> normalize_key v1 = Inr mk \<longrightarrow>
          (map_of kvs ''model'' = None \<longrightarrow> loop_body stats car u m = Inl (KeyError ''model'')) \<and>
          (py_getitem car ''model'' = Inr v2 \<and> normalize_key v2 = Inr mdl \<longrightarrow>
           (map_of kvs ''fuelType'' = None \<longrightarrow>
              loop_body stats car u m = Inl (KeyError ''fuelType'')) \<and>
           (py_getitem car ''fuelType'' = Inr v3 \<and> normalize_key v3 = Inr fl \<longrightarrow>
            (map_of kvs ''yearOfManufacture'' = None \<longrightarrow>
               loop_body stats car u m = Inl (KeyError ''yearOfManufacture'')) \<and>
            (py_getitem car ''yearOfManufacture'' = Inr v4 \<and> py_int v4 = Inr y \<and>
             find_data stats mk mdl fl (target_lookup_year y) = Inr found_data \<longrightarrow>
             (\<not> truthy found_data \<longrightarrow> loop_body stats car u m = Inr (car, u, m + 1)) \<and>
             (truthy found_data \<and> py_getitem found_data ''avgPrice'' = Inr avg \<and>
              new_price avg = Inr np \<longrightarrow>
              (map_of kvs ''basicPrice'' = None \<longrightarrow>
                 loop_body stats car u m = Inl (KeyError ''basicPrice'')) \<and>
              (py_getitem car ''basicPrice'' = Inr bp \<and>
               map_of kvs ''originalListPrice'' = None \<longrightarrow>
                 loop_body stats car u m = Inl (KeyError ''originalListPrice'')))))))"
proof -
  note g = py_getitem_None [of kvs, folded assms]
  have a: "\<exists>e. update_prices fs = (fs, Inl e)"
    if "f = ''make'' \<or> f = ''model'' \<or> f = ''fuelType'' \<or> f = ''yearOfManufacture''"
      "map_of kvs f = None" "cars_file fs = JArr cars" "car \<in> set cars"
    using that(3,4)
    by (rule update_prices_fails)
      (simp add: assms loop_body_missing_early [OF that(2,1)])
  have b1: "loop_body stats car u m = Inl (KeyError ''make'')"
    if "map_of kvs ''make'' = None"
    using g [OF that] by (simp add: loop_body_def)
  have b2: "loop_body stats car u m = Inl (KeyError ''model'')"
    if "py_getitem car ''make'' = Inr v1" "normalize_key v1 = Inr mk"
      "map_of kvs ''model'' = None"
    using that(1,2) g [OF that(3)] by (simp add: loop_body_def)
  have b3: "loop_body stats car u m = Inl (KeyError ''fuelType'')"
    if "py_getitem car ''make'' = Inr v1" "normalize_key v1 = Inr mk"
      "py_getitem car ''model'' = Inr v2" "normalize_key v2 = Inr mdl"
      "map_of kvs ''fuelType'' = None"
    using that(1-4) g [OF that(5)] by (simp add: loop_body_def)
  have b4: "loop_body stats car u m = Inl (KeyError ''yearOfManufacture'')"
    if "py_getitem car ''make'' = Inr v1" "normalize_key v1 = Inr mk"
      "py_getitem car ''model'' = Inr v2" "normalize_key v2 = Inr mdl"
      "py_getitem car ''fuelType'' = Inr v3" "normalize_key v3 = Inr fl"
      "map_of kvs ''yearOfManufacture'' = None"
    using that(1-6) g [OF that(7)] by (simp add: loop_body_def)
  have c: "loop_body stats car u m = Inr (car, u, m + 1)"
    if "py_getitem car ''make'' = Inr v1" "normalize_key v1 = Inr mk"
      "py_getitem car ''model'' = Inr v2" "normalize_key v2 = Inr mdl"
      "py_getitem car ''fuelType'' = Inr v3" "normalize_key v3 = Inr fl"
      "py_getitem car ''yearOfManufacture'' = Inr v4" "py_int v4 = Inr y"
      "find_data stats mk mdl fl (target_lookup_year y) = Inr found_data"
      "\<not> truthy found_data"
    using that(9,10) by (simp add: loop_body_fields [OF that(1-8)] apply_found_falsy)
  have d1: "loop_body stats car u m = Inl (KeyError ''basicPrice'')"
    if "py_getitem car ''make'' = Inr v1" "normalize_key v1 = Inr mk"
      "py_getitem car ''model'' = Inr v2" "normalize_key v2 = Inr mdl"
      "py_getitem car ''fuelType'' = Inr v3" "normalize_key v3 = Inr fl"
      "py_getitem car ''yearOfManufacture'' = Inr v4" "py_int v4 = Inr y"
      "find_data stats mk mdl fl (target_lookup_year y) = Inr found_data"
      "truthy found_data" "py_getitem found_data ''avgPrice'' = Inr avg"
      "new_price avg = Inr np" "map_of kvs ''basicPrice'' = None"
    using that(1-12) g [OF that(13)] by (rule loop_body_no_basic_price)
  have d2: "loop_body stats car u m = Inl (KeyError ''originalListPrice'')"
    if "py_getitem car ''make'' = Inr v1" "normalize_key v1 = Inr mk"
      "py_getitem car ''model'' = Inr v2" "normalize_key v2 = Inr mdl"
      "py_getitem car ''fuelType'' = Inr v3" "normalize_key v3 = Inr fl"
      "py_getitem car ''yearOfManufacture'' = Inr v4" "py_int v4 = Inr y"
      "find_data stats mk mdl fl (target_lookup_year y) = Inr found_data"
      "truthy found_data" "py_getitem found_data ''avgPrice'' = Inr avg"
      "new_price avg = Inr np" "py_getitem car ''basicPrice'' = Inr bp"
      "map_of kvs ''originalListPrice'' = None"
    using that(1-13) g [OF that(14)] by (rule loop_body_no_list_price)
  from a b1 b2 b3 b4 c d1 d2 show ?thesis by blast
qed

theorem C4_witness:
  "map_of focus_no_list_price ''originalListPrice'' = None \<and>
   loop_body (focus_stats [(''2014'', avg_record 6430)]) (JObj focus_no_list_price) 0 0
     = Inl (KeyError ''originalListPrice'') \<and>
   loop_body (JObj []) (JObj focus_no_list_price) 0 0 = Inr (JObj focus_no_list_price, 0, 1) \<and>
   map_of focus_no_make ''make'' = None \<and>
   loop_body (JObj []) (JObj focus_no_make) 0 0 = Inl (KeyError ''make'') \<and>
   (\<exists>e. update_prices \<lparr>cars_file = JArr [JObj focus_fields, JObj focus_no_make],
                         stats_file = JObj []\<rparr> =
      (\<lparr>cars_file = JArr [JObj focus_fields, JObj focus_no_make], stats_file = JObj []\<rparr>,
       Inl e))"
proof -
  let ?car = "JObj focus_no_list_price"
  let ?stats = "focus_stats [(''2014'', avg_record 6430)]"
  let ?fs = "\<lparr>cars_file = JArr [JObj focus_fields, JObj focus_no_make], stats_file = JObj []\<rparr>"
  have 1: "py_getitem ?car ''make'' = Inr (JStr ''Ford'')" by code_simp
  have 2: "normalize_key (JStr ''Ford'') = Inr ''ford''" by code_simp
  have 3: "py_getitem ?car ''model'' = Inr (JStr ''Focus'')" by code_simp
  have 4: "normalize_key (JStr ''Focus'') = Inr ''focus''" by code_simp
  have 5: "py_getitem ?car ''fuelType'' = Inr (JStr ''Petrol'')" by code_simp
  have 6: "normalize_key (JStr ''Petrol'') = Inr ''petrol''" by code_simp
  have 7: "py_getitem ?car ''yearOfManufacture'' = Inr (JInt 2018)" by code_simp
  have 8: "py_int (JInt 2018) = Inr 2018" by code_simp
  have 9: "find_data ?stats ''ford'' ''focus'' ''petrol'' (target_lookup_year 2018)
      = Inr (avg_record 6430)" by code_simp
  have 10: "truthy (avg_record 6430)" by code_simp
  have 11: "py_getitem (avg_record 6430) ''avgPrice'' = Inr (JInt 6430)" by code_simp
  have 12: "new_price (JInt 6430) = Inr 6400" by code_simp
  have 13: "py_getitem ?car ''basicPrice'' = Inr (JInt 5000)" by code_simp
  have 14: "map_of focus_no_list_price ''originalListPrice'' = None" by code_simp
  have 15: "find_data (JObj []) ''ford'' ''focus'' ''petrol'' (target_lookup_year 2018)
      = Inr JNull" by code_simp
  have 16: "\<not> truthy JNull" by code_simp
  have 17: "map_of focus_no_make ''make'' = None" by code_simp
  have 18: "cars_file ?fs = JArr [JObj focus_fields, JObj focus_no_make]" by simp
  have 19: "JObj focus_no_make \<in> set [JObj focus_fields, JObj focus_no_make]" by simp
  have a: "loop_body ?stats ?car 0 0 = Inl (KeyError ''originalListPrice'')"
    using C4_missing_field_raises_where_read [OF refl, where kvs = focus_no_list_price
        and stats = ?stats and ?v1.0 = "JStr ''Ford''" and mk = "''ford''"
        and ?v2.0 = "JStr ''Focus''" and mdl = "''focus''"
        and ?v3.0 = "JStr ''Petrol''" and fl = "''petrol''"
        and ?v4.0 = "JInt 2018" and y = 2018 and found_data = "avg_record 6430"
        and avg = "JInt 6430" and np = 6400 and bp = "JInt 5000" and u = 0 and m = 0]
      1 2 3 4 5 6 7 8 9 10 11 12 13 14
    by blast
  have b: "loop_body (JObj []) ?car 0 0 = Inr (?car, 0, 1)"
    using C4_missing_field_raises_where_read [OF refl, where kvs = focus_no_list_price
        and stats = "JObj []" and ?v1.0 = "JStr ''Ford''" and mk = "''ford''"
        and ?v2.0 = "JStr ''Focus''" and mdl = "''focus''"
        and ?v3.0 = "JStr ''Petrol''" and fl = "''petrol''"
        and ?v4.0 = "JInt 2018" and y = 2018 and found_data = JNull and u = 0 and m = 0]
      1 2 3 4 5 6 7 8 15 16
    by simp
  have c: "loop_body (JObj []) (JObj focus_no_make) 0 0 = Inl (KeyError ''make'') \<and>
      (\<exists>e. update_prices ?fs = (?fs, Inl e))"
    using C4_missing_field_raises_where_read [OF refl, where kvs = focus_no_make
        and stats = "JObj []" and f = "''make''" and fs = ?fs
        and cars = "[JObj focus_fields, JObj focus_no_make]" and u = 0 and m = 0]
      17 18 19
    by blast
  from a b c 14 17 show ?thesis by blast
qed

text \<open>
  A record without \<open>originalListPrice\<close> and no statistics for it: the run completes, with
  the record counted as missing. And where a run does end on a missing field, the
  exception is \<open>KeyError\<close> with the key: here the record is the second of the catalog, and
  the exception does not say so.
\<close>
theorem C4_counterexample:
  "map_of focus_no_list_price ''originalListPrice'' = None \<and>
   update_prices \<lparr>cars_file = JArr [JObj focus_no_list_price], stats_file = JObj []\<rparr> =
     (\<lparr>cars_file = JArr [JObj focus_no_list_price], stats_file = JObj []\<rparr>, Inr (0, 1)) \<and>
   update_prices \<lparr>cars_file = JArr [JObj focus_fields, JObj focus_no_make],
                  stats_file = JObj []\<rparr> =
     (\<lparr>cars_file = JArr [JObj focus_fields, JObj focus_no_make], stats_file = JObj []\<rparr>,
      Inl (KeyError ''make''))"
  by code_simp

end
